theory Spec2Isabelle
  imports Complex_Main "HOL-Library.Word"
begin

section \<open>Transaction lifecycle of the blockchain reactor (blockchain/transact.go)\<close>

text \<open>
  The file transact.go holds the build, sign-submit, submit and confirmation-wait handlers of
  \<open>BlockchainReactor\<close>. Everything it calls in other packages (the action decoders, the
  alias filter, \<open>json.Marshal\<close>, \<open>txbuilder.Build\<close>, \<open>txbuilder.Sign\<close>,
  \<open>txbuilder.FinalizeTx\<close>, the chain, the observers of the \<open>errors\<close> package) is a
  field of an environment record, so every theorem holds for any behaviour of these
  collaborators.
\<close>

subsection \<open>Data\<close>

text \<open>A dynamic value held in a \<open>map[string]interface{}\<close> decoded from JSON.\<close>

datatype json =
    JNull
  | JBool bool
  | JNumber real
  | JString string
  | JArray "json list"
  | JObject "(string \<times> json) list"

type_synonym ActionSpec = "string \<rightharpoonup> json"

type_synonym bytes = string

text \<open>\<open>bc.Hash\<close>, identified with its hexadecimal rendering, so that \<open>ID.String()\<close> is the
  value itself.\<close>

type_synonym Hash = string

text \<open>\<open>context.Context\<close>: the nil interface value, or a context named by a number.\<close>

datatype Context = nil_ctx | Ctx nat

text \<open>An argument handed to a format string.\<close>

datatype fmt_arg = ArgInt nat | ArgString string

text \<open>
  Error values. The package-level sentinels are constants; \<open>Ext\<close> is an error made by a
  collaborator; the other constructors record a call of the \<open>errors\<close> package the way
  transact.go writes it (error, format string or key, arguments).
  \<open>Format e\<close> is the \<open>httperror.Response\<close> that \<open>errorFormatter.Format\<close> returns for
  \<open>e\<close>.
\<close>

datatype error =
    errBadActionType
  | errBadAction
  | ErrMissingRawTx
  | ErrAction
  | Ext string
  | Wrap error "fmt_arg list"
  | Wrapf error string "fmt_arg list"
  | WithDetailf error string "fmt_arg list"
  | WithData error string "httperror_Response list"
and httperror_Response = Format error

text \<open>A call either returns or panics.\<close>

datatype 'a run = Returns 'a | Panics

typedecl TxData

typedecl SigningInstruction

record Tx =
  ID :: Hash

text \<open>\<open>txbuilder.Template\<close>: \<open>Transaction\<close> is a pointer, \<open>SigningInstructions\<close> a
  slice; \<open>None\<close> is nil for both.\<close>

record Template =
  Transaction :: "Tx option"
  SigningInstructions :: "SigningInstruction list option"

record json_Duration =
  Duration :: "64 word"

record BuildRequest =
  Tx :: "TxData option"
  Actions :: "ActionSpec list"
  TTL :: json_Duration

record Block =
  Transactions :: "Tx list"

text \<open>The two calls of \<open>resWrapper\<close>: with data only, and with an error.\<close>

datatype 'd Response = resWrapper_data 'd | resWrapper_err error

text \<open>Instants are nanoseconds since the epoch; a \<open>time.Duration\<close> is an int64 of
  nanoseconds.\<close>

type_synonym time = int

definition time_Add :: "time \<Rightarrow> 64 word \<Rightarrow> time" where
  "time_Add t d = t + sint d"

definition time_Minute :: "64 word" where
  "time_Minute = 60 * 1000000000"

definition defaultTxTTL :: "64 word" where
  "defaultTxTTL = 5 * time_Minute"

subsection \<open>Collaborators of the build side\<close>

record 'act build_env =
  accounts_DecodeControlAction :: "bytes \<Rightarrow> error + 'act"
  txbuilder_DecodeControlAddressAction :: "bytes \<Rightarrow> error + 'act"
  txbuilder_DecodeControlProgramAction :: "bytes \<Rightarrow> error + 'act"
  txbuilder_DecodeControlReceiverAction :: "bytes \<Rightarrow> error + 'act"
  assets_DecodeIssueAction :: "bytes \<Rightarrow> error + 'act"
  txbuilder_DecodeRetireAction :: "bytes \<Rightarrow> error + 'act"
  accounts_DecodeSpendAction :: "bytes \<Rightarrow> error + 'act"
  accounts_DecodeSpendUTXOAction :: "bytes \<Rightarrow> error + 'act"
  txbuilder_DecodeSetTxRefDataAction :: "bytes \<Rightarrow> error + 'act"
  filterAliases :: "Context \<Rightarrow> BuildRequest \<Rightarrow> error + BuildRequest"
  json_Marshal :: "ActionSpec \<Rightarrow> error + bytes"
  error_Error :: "error \<Rightarrow> string"
  txbuilder_Build :: "Context \<Rightarrow> TxData option \<Rightarrow> 'act list \<Rightarrow> time \<Rightarrow> error + Template option"
  errors_Root :: "error \<Rightarrow> error"
  errors_Data_actions :: "error \<Rightarrow> error list option"
  reqid_NewSubContext :: "Context \<Rightarrow> Context"

text \<open>
  \<open>filterAliases\<close> rewrites the request in place: \<open>Inr\<close> holds the request as it is
  afterwards. A decoder, \<open>json.Marshal\<close> and \<open>txbuilder.Build\<close> return a pair of a value
  and an error of which transact.go reads the value only when the error is nil.
  \<open>errors_Data_actions e\<close> is \<open>errors.Data(e)["actions"]\<close> when that is a \<open>[]error\<close>,
  and \<open>None\<close> when the type assertion panics.
\<close>

subsection \<open>The action registry\<close>

definition actionDecoder :: "'act build_env \<Rightarrow> string \<Rightarrow> (bytes \<Rightarrow> error + 'act) option" where
  "actionDecoder bcr action =
    (if action = ''control_account'' then Some (accounts_DecodeControlAction bcr)
     else if action = ''control_address'' then Some (txbuilder_DecodeControlAddressAction bcr)
     else if action = ''control_program'' then Some (txbuilder_DecodeControlProgramAction bcr)
     else if action = ''control_receiver'' then Some (txbuilder_DecodeControlReceiverAction bcr)
     else if action = ''issue'' then Some (assets_DecodeIssueAction bcr)
     else if action = ''retire'' then Some (txbuilder_DecodeRetireAction bcr)
     else if action = ''spend_account'' then Some (accounts_DecodeSpendAction bcr)
     else if action = ''spend_account_unspent_output'' then Some (accounts_DecodeSpendUTXOAction bcr)
     else if action = ''set_transaction_reference_data'' then Some (txbuilder_DecodeSetTxRefDataAction bcr)
     else None)"

definition registered :: "string set" where
  "registered = {''control_account'', ''control_address'', ''control_program'',
     ''control_receiver'', ''issue'', ''retire'', ''spend_account'',
     ''spend_account_unspent_output'', ''set_transaction_reference_data''}"

subsection \<open>buildSingle\<close>

text \<open>Line 53, \<open>typ, ok := act["type"].(string)\<close>: the string under the key, when the
  key is there and holds a string.\<close>

definition action_type :: "ActionSpec \<Rightarrow> string option" where
  "action_type act = (case act ''type'' of Some (JString typ) \<Rightarrow> Some typ | _ \<Rightarrow> None)"

text \<open>One round of the loop over \<open>req.Actions\<close> (lines 53 to 72) for the action \<open>act\<close> at
  index \<open>i\<close>: the decoded action, or the error the loop returns with.\<close>

definition decodeAction :: "'act build_env \<Rightarrow> nat \<Rightarrow> ActionSpec \<Rightarrow> error + 'act" where
  "decodeAction bcr i act =
    (case action_type act of
       None \<Rightarrow> Inl (WithDetailf errBadActionType ''no action type provided on action %d''
                     [ArgInt i])
     | Some typ \<Rightarrow>
         (case actionDecoder bcr typ of
            None \<Rightarrow> Inl (WithDetailf errBadActionType ''unknown action type %q on action %d''
                          [ArgString typ, ArgInt i])
          | Some decoder \<Rightarrow>
              (case json_Marshal bcr act of
                 Inl err \<Rightarrow> Inl err
               | Inr b \<Rightarrow>
                   (case decoder b of
                      Inl err \<Rightarrow> Inl (WithDetailf errBadAction ''%s on action %d''
                                     [ArgString (error_Error bcr err), ArgInt i])
                    | Inr action \<Rightarrow> Inr action))))"

text \<open>The loop: \<open>i\<close> is the index of the head of the remaining list, \<open>actions\<close> the
  slice built so far.\<close>

fun decodeActions :: "'act build_env \<Rightarrow> nat \<Rightarrow> ActionSpec list \<Rightarrow> 'act list \<Rightarrow> error + 'act list" where
  "decodeActions bcr i [] actions = Inr actions"
| "decodeActions bcr i (act # rest) actions =
    (case decodeAction bcr i act of
       Inl err \<Rightarrow> Inl err
     | Inr action \<Rightarrow> decodeActions bcr (Suc i) rest (actions @ [action]))"

text \<open>Lines 81 to 99: the call of \<open>txbuilder.Build\<close>, the formatting of the inner errors
  of an action error, and the signing instructions made non-nil.\<close>

definition assemble :: "'act build_env \<Rightarrow> Context \<Rightarrow> TxData option \<Rightarrow> 'act list \<Rightarrow> time
    \<Rightarrow> (error + Template) run" where
  "assemble bcr ctx tx actions maxTime =
    (case txbuilder_Build bcr ctx tx actions maxTime of
       Inl err \<Rightarrow>
         (if errors_Root bcr err = ErrAction then
            (case errors_Data_actions bcr err of
               None \<Rightarrow> Panics
             | Some innerErrs \<Rightarrow> Returns (Inl (WithData err ''actions'' (map Format innerErrs))))
          else Returns (Inl err))
     | Inr None \<Rightarrow> Panics
     | Inr (Some tpl) \<Rightarrow>
         (if SigningInstructions tpl = None
          then Returns (Inr (tpl\<lparr>SigningInstructions := Some []\<rparr>))
          else Returns (Inr tpl)))"

text \<open>\<open>now\<close> is the reading of \<open>time.Now()\<close> at line 79.\<close>

definition buildSingle :: "'act build_env \<Rightarrow> time \<Rightarrow> Context \<Rightarrow> BuildRequest
    \<Rightarrow> (error + Template) run" where
  "buildSingle bcr now ctx req0 =
    (case filterAliases bcr ctx req0 of
       Inl err \<Rightarrow> Returns (Inl err)
     | Inr req \<Rightarrow>
         (case decodeActions bcr 0 (Actions req) [] of
            Inl err \<Rightarrow> Returns (Inl err)
          | Inr actions \<Rightarrow>
              (let ttl = Duration (TTL req);
                   ttl = (if ttl = 0 then defaultTxTTL else ttl);
                   maxTime = time_Add now ttl
               in assemble bcr ctx (Tx req) actions maxTime)))"

definition build :: "'act build_env \<Rightarrow> time \<Rightarrow> Context \<Rightarrow> BuildRequest \<Rightarrow> Template Response run" where
  "build bcr now ctx buildReqs =
    (let subctx = reqid_NewSubContext bcr ctx
     in case buildSingle bcr now subctx buildReqs of
          Panics \<Rightarrow> Panics
        | Returns (Inl err) \<Rightarrow> Returns (resWrapper_err err)
        | Returns (Inr tmpl) \<Rightarrow> Returns (resWrapper_data tmpl))"

subsection \<open>Collaborators of the chain side\<close>

text \<open>
  \<open>'c\<close> is the state of the chain and its pending pool. \<open>txbuilder.FinalizeTx\<close> may change
  it; \<open>txbuilder.Sign\<close> rewrites the template in place and returns an error or nil.
\<close>

record 'c chain_env =
  chain_Height :: "'c \<Rightarrow> 64 word"
  chain_GetBlockByHeight :: "'c \<Rightarrow> 64 word \<Rightarrow> error + Block"
  txbuilder_FinalizeTx :: "Context \<Rightarrow> 'c \<Rightarrow> Tx option \<Rightarrow> error option \<times> 'c"
  txbuilder_Sign :: "Context \<Rightarrow> Template \<Rightarrow> string \<Rightarrow> error option \<times> Template"

text \<open>The calls made to the collaborators, in the order they are made.\<close>

datatype event =
    EvHeight
  | EvFinalizeTx Context "Tx option"
  | EvBlockWaiter "64 word"
  | EvGetBlockByHeight "64 word"
  | EvSign Context string

record 'c world =
  chain :: 'c
  calls :: "event list"

definition call_FinalizeTx :: "'c chain_env \<Rightarrow> Context \<Rightarrow> Tx option \<Rightarrow> 'c world
    \<Rightarrow> error option \<times> 'c world" where
  "call_FinalizeTx bcr ctx tx w =
    (case txbuilder_FinalizeTx bcr ctx (chain w) tx of
       (err, c) \<Rightarrow> (err, w\<lparr>chain := c, calls := calls w @ [EvFinalizeTx ctx tx]\<rparr>))"

subsection \<open>submitSingle\<close>

definition submitSingle :: "'c chain_env \<Rightarrow> Context \<Rightarrow> Template \<Rightarrow> 'c world
    \<Rightarrow> (error + (string \<rightharpoonup> string)) \<times> 'c world" where
  "submitSingle bcr ctx tpl w =
    (case Transaction tpl of
       None \<Rightarrow> (Inl (Wrap ErrMissingRawTx []), w)
     | Some tx \<Rightarrow>
         (case call_FinalizeTx bcr ctx (Some tx) w of
            (Some err, w') \<Rightarrow> (Inl (Wrapf err ''tx %s'' [ArgString (ID tx)]), w')
          | (None, w') \<Rightarrow> (Inr [''txid'' \<mapsto> ID tx], w')))"

subsection \<open>finalizeTxWait\<close>

text \<open>The result is the returned error, \<open>None\<close> for nil. The call of \<open>waitForTxInBlock\<close>
  at line 150 is commented out in the source, so the second test of \<open>err\<close> reads the value
  left by \<open>FinalizeTx\<close>.\<close>

definition finalizeTxWait :: "'c chain_env \<Rightarrow> Context \<Rightarrow> Template \<Rightarrow> string \<Rightarrow> 'c world
    \<Rightarrow> error option \<times> 'c world" where
  "finalizeTxWait bcr ctx txTemplate waitUntil w =
    (let localHeight = chain_Height bcr (chain w);
         w0 = w\<lparr>calls := calls w @ [EvHeight]\<rparr>
     in case call_FinalizeTx bcr ctx (Transaction txTemplate) w0 of
          (err, w1) \<Rightarrow>
            (if err \<noteq> None then (err, w1)
             else if waitUntil = ''none'' then (None, w1)
             else if err \<noteq> None then (err, w1)
             else if waitUntil = ''confirmed'' then (None, w1)
             else (None, w1)))"

subsection \<open>waitForTxInBlock\<close>

text \<open>
  The \<open>select\<close> of each round blocks until the context is done or the block at the tracked
  height has landed. A run is driven by the list of wake-ups that arrive: \<open>ctx_Done e\<close>
  when the context's channel fires and \<open>ctx.Err()\<close> is \<open>e\<close>; \<open>block_landed c\<close> when the
  block waiter fires and the chain, changed meanwhile by the rest of the node, is \<open>c\<close>.
  When the list is used up the call is still blocked in its \<open>select\<close>: the result is
  \<open>None\<close>.
\<close>

datatype 'c wakeup = ctx_Done error | block_landed 'c

text \<open>The scan of \<open>b.Transactions\<close>; reading \<open>tx.ID\<close> of a nil \<open>tx\<close> panics.\<close>

fun txInBlock :: "Tx list \<Rightarrow> Tx option \<Rightarrow> bool run" where
  "txInBlock [] tx = Returns False"
| "txInBlock (confirmed # rest) tx =
    (case tx of
       None \<Rightarrow> Panics
     | Some t \<Rightarrow> (if ID confirmed = ID t then Returns True else txInBlock rest tx))"

fun waitForTxInBlock :: "'c chain_env \<Rightarrow> Context \<Rightarrow> Tx option \<Rightarrow> 64 word \<Rightarrow> 'c wakeup list
    \<Rightarrow> 'c world \<Rightarrow> (error + 64 word) run option \<times> 'c world" where
  "waitForTxInBlock bcr ctx tx height [] w =
    (let height = height + 1
     in if ctx = nil_ctx then (Some Panics, w)
        else (None, w\<lparr>calls := calls w @ [EvBlockWaiter height]\<rparr>))"
| "waitForTxInBlock bcr ctx tx height (wake # wakes) w =
    (let height = height + 1
     in if ctx = nil_ctx then (Some Panics, w)
        else
          (let w1 = w\<lparr>calls := calls w @ [EvBlockWaiter height]\<rparr>
           in case wake of
                ctx_Done e \<Rightarrow> (Some (Returns (Inl e)), w1)
              | block_landed c \<Rightarrow>
                  (let w2 = w1\<lparr>chain := c, calls := calls w1 @ [EvGetBlockByHeight height]\<rparr>
                   in case chain_GetBlockByHeight bcr c height of
                        Inl err \<Rightarrow>
                          (Some (Returns (Inl (Wrap err [ArgString ''getting block that just landed'']))), w2)
                      | Inr b \<Rightarrow>
                          (case txInBlock (Transactions b) tx of
                             Panics \<Rightarrow> (Some Panics, w2)
                           | Returns True \<Rightarrow> (Some (Returns (Inr height)), w2)
                           | Returns False \<Rightarrow>
                               (case call_FinalizeTx bcr ctx tx w2 of
                                  (Some err, w3) \<Rightarrow> (Some (Returns (Inl err)), w3)
                                | (None, w3) \<Rightarrow> waitForTxInBlock bcr ctx tx height wakes w3)))))"

subsection \<open>The submit and sign-submit handlers\<close>

definition submit :: "'c chain_env \<Rightarrow> Context \<Rightarrow> Template \<Rightarrow> 'c world
    \<Rightarrow> (string \<rightharpoonup> string) Response \<times> 'c world" where
  "submit bcr ctx tpl w =
    (case submitSingle bcr nil_ctx tpl w of
       (Inl err, w') \<Rightarrow> (resWrapper_err err, w')
     | (Inr txid, w') \<Rightarrow> (resWrapper_data txid, w'))"

record signSubmit_request =
  Auth :: string
  Txs :: Template

definition signSubmit :: "'c chain_env \<Rightarrow> Context \<Rightarrow> signSubmit_request \<Rightarrow> 'c world
    \<Rightarrow> (string \<rightharpoonup> string) Response \<times> 'c world" where
  "signSubmit bcr ctx x w =
    (case txbuilder_Sign bcr ctx (Txs x) (Auth x) of
       (err, txs) \<Rightarrow>
         (let w0 = w\<lparr>calls := calls w @ [EvSign ctx (Auth x)]\<rparr>
          in case err of
               Some e \<Rightarrow> (resWrapper_err e, w0)
             | None \<Rightarrow>
                 (case submitSingle bcr nil_ctx txs w0 of
                    (Inl err, w') \<Rightarrow> (resWrapper_err err, w')
                  | (Inr txID, w') \<Rightarrow> (resWrapper_data txID, w'))))"

text \<open>The heights handed to the block waiter, and those whose block was fetched.\<close>

fun awaited :: "event list \<Rightarrow> 64 word list" where
  "awaited [] = []"
| "awaited (EvBlockWaiter h # es) = h # awaited es"
| "awaited (e # es) = awaited es"

fun inspected :: "event list \<Rightarrow> 64 word list" where
  "inspected [] = []"
| "inspected (EvGetBlockByHeight h # es) = h # inspected es"
| "inspected (e # es) = inspected es"

text \<open>The contexts handed to \<open>txbuilder.FinalizeTx\<close>.\<close>

fun finalize_contexts :: "event list \<Rightarrow> Context list" where
  "finalize_contexts [] = []"
| "finalize_contexts (EvFinalizeTx c t # es) = c # finalize_contexts es"
| "finalize_contexts (e # es) = finalize_contexts es"

text \<open>The heights a run of the waiter hands to the block waiter, and those it fetches.\<close>

definition heights_awaited :: "'c chain_env \<Rightarrow> Context \<Rightarrow> Tx option \<Rightarrow> 64 word \<Rightarrow> 'c wakeup list
    \<Rightarrow> 'c world \<Rightarrow> 64 word list" where
  "heights_awaited bcr ctx tx H wakes w =
    awaited (drop (length (calls w)) (calls (snd (waitForTxInBlock bcr ctx tx H wakes w))))"

definition heights_inspected :: "'c chain_env \<Rightarrow> Context \<Rightarrow> Tx option \<Rightarrow> 64 word \<Rightarrow> 'c wakeup list
    \<Rightarrow> 'c world \<Rightarrow> 64 word list" where
  "heights_inspected bcr ctx tx H wakes w =
    inspected (drop (length (calls w)) (calls (snd (waitForTxInBlock bcr ctx tx H wakes w))))"

text \<open>\<open>H + 1, \<dots>, H + n\<close> in the arithmetic of uint64.\<close>

definition heights_from :: "64 word \<Rightarrow> nat \<Rightarrow> 64 word list" where
  "heights_from H n = map (\<lambda>k. H + of_nat (Suc k)) [0..<n]"

text \<open>Each height is the one before it plus one, the first one \<open>H + 1\<close>.\<close>

fun consecutive :: "64 word \<Rightarrow> 64 word list \<Rightarrow> bool" where
  "consecutive H [] = True"
| "consecutive H (h # hs) = (h = H + 1 \<and> consecutive h hs)"

subsection \<open>Sample collaborators\<close>

text \<open>
  A small instance of each environment, on which the functions above can be run. Every
  decoder rejects a payload that starts with \<open>bad\<close>; marshalling writes the
  \<open>payload\<close> field; the assembly routine returns a template with nil signing
  instructions.
\<close>

definition sample_decoder :: "bytes \<Rightarrow> error + nat" where
  "sample_decoder b =
    (if take 3 b = ''bad'' then Inl (Ext (''cannot decode '' @ b)) else Inr (length b))"

definition sample_Marshal :: "ActionSpec \<Rightarrow> error + bytes" where
  "sample_Marshal act = (case act ''payload'' of Some (JString s) \<Rightarrow> Inr s | _ \<Rightarrow> Inr ''{}'')"

definition sample_Error :: "error \<Rightarrow> string" where
  "sample_Error e = (case e of Ext m \<Rightarrow> m | _ \<Rightarrow> ''error'')"

definition sample_tx :: Tx where
  "sample_tx = \<lparr>ID = ''ab01''\<rparr>"

definition sample_template :: Template where
  "sample_template = \<lparr>Transaction = Some sample_tx, SigningInstructions = None\<rparr>"

definition sample_builder :: "nat build_env" where
  "sample_builder = \<lparr>
     accounts_DecodeControlAction = sample_decoder,
     txbuilder_DecodeControlAddressAction = sample_decoder,
     txbuilder_DecodeControlProgramAction = sample_decoder,
     txbuilder_DecodeControlReceiverAction = sample_decoder,
     assets_DecodeIssueAction = sample_decoder,
     txbuilder_DecodeRetireAction = sample_decoder,
     accounts_DecodeSpendAction = sample_decoder,
     accounts_DecodeSpendUTXOAction = sample_decoder,
     txbuilder_DecodeSetTxRefDataAction = sample_decoder,
     filterAliases = (\<lambda>ctx req. Inr req),
     json_Marshal = sample_Marshal,
     error_Error = sample_Error,
     txbuilder_Build = (\<lambda>ctx tx actions maxTime. Inr (Some sample_template)),
     errors_Root = (\<lambda>e. e),
     errors_Data_actions = (\<lambda>e. None),
     reqid_NewSubContext = (\<lambda>ctx. Ctx 1)\<rparr>"

text \<open>The sample collaborators with an assembly routine that looks at the expiry bound it
  is given: it accepts 300000001000 ns and rejects any other bound.\<close>

definition stamping_builder :: "nat build_env" where
  "stamping_builder = sample_builder\<lparr>txbuilder_Build := (\<lambda>ctx tx actions maxTime.
      if maxTime = 300000001000 then Inr (Some sample_template)
      else Inl (Ext ''unexpected expiry bound''))\<rparr>"

definition sample_request :: "ActionSpec list \<Rightarrow> BuildRequest" where
  "sample_request acts = \<lparr>Tx = None, Actions = acts, TTL = \<lparr>Duration = 0\<rparr>\<rparr>"

definition retire_ok :: ActionSpec where
  "retire_ok = [''type'' \<mapsto> JString ''retire'', ''payload'' \<mapsto> JString ''ok'']"

definition retire_bad :: ActionSpec where
  "retire_bad = [''type'' \<mapsto> JString ''retire'', ''payload'' \<mapsto> JString ''bad1'']"

definition issue_bad :: ActionSpec where
  "issue_bad = [''type'' \<mapsto> JString ''issue'', ''payload'' \<mapsto> JString ''bad2'']"

definition untyped_action :: ActionSpec where
  "untyped_action = [''payload'' \<mapsto> JString ''ok'']"

definition bogus_action :: ActionSpec where
  "bogus_action = [''type'' \<mapsto> JString ''bogus'']"

text \<open>
  A chain whose state is the list of identifiers in its pending pool: it stands at height
  5, its blocks are empty, admission to the pool always succeeds for a transaction that is
  there, and the signer accepts the credential \<open>secret\<close> only.
\<close>

definition sample_chain :: "Hash list chain_env" where
  "sample_chain = \<lparr>
     chain_Height = (\<lambda>c. 5),
     chain_GetBlockByHeight = (\<lambda>c h. Inr \<lparr>Transactions = []\<rparr>),
     txbuilder_FinalizeTx = (\<lambda>ctx c tx.
        case tx of None \<Rightarrow> (Some (Ext ''nil transaction''), c)
        | Some t \<Rightarrow> (None, if ID t \<in> set c then c else ID t # c)),
     txbuilder_Sign = (\<lambda>ctx tpl auth.
        if auth = ''secret'' then (None, tpl\<lparr>SigningInstructions := Some []\<rparr>)
        else (Some (Ext ''bad credential''), tpl))\<rparr>"

text \<open>The same chain with a signer that gives up when its context, here \<open>Ctx 1\<close>, has
  been cancelled.\<close>

definition cancelling_chain :: "Hash list chain_env" where
  "cancelling_chain = sample_chain\<lparr>txbuilder_Sign := (\<lambda>ctx tpl auth.
        if ctx = Ctx 1 then (Some (Ext ''context canceled''), tpl) else (None, tpl))\<rparr>"

definition fresh_world :: "Hash list world" where
  "fresh_world = \<lparr>chain = [], calls = []\<rparr>"

section \<open>Properties of the build side\<close>

subsection \<open>The decode loop\<close>

lemma decodeActions_append:
  "decodeActions bcr k (xs @ ys) acc =
     (case decodeActions bcr k xs acc of
        Inl e \<Rightarrow> Inl e
      | Inr acc' \<Rightarrow> decodeActions bcr (k + length xs) ys acc')"
  by (induction xs arbitrary: k acc) (auto split: sum.splits)

lemma decodeActions_stops_at:
  assumes "i < length acts"
    and "decodeActions bcr 0 (take i acts) [] = Inr acc"
    and "decodeAction bcr i (acts ! i) = Inl e"
  shows "decodeActions bcr 0 acts [] = Inl e"
proof -
  have "acts = take i acts @ (acts ! i) # drop (Suc i) acts"
    using assms(1) by (simp add: id_take_nth_drop)
  then have "decodeActions bcr 0 acts [] =
      decodeActions bcr 0 (take i acts @ (acts ! i) # drop (Suc i) acts) []"
    by simp
  also have "\<dots> = Inl e"
    using assms by (simp add: decodeActions_append min_absorb2)
  finally show ?thesis .
qed

lemma decodeActions_fails:
  assumes "\<And>j. isl (decodeAction bcr j act)"
  shows "act \<in> set acts \<Longrightarrow> isl (decodeActions bcr k acts acc)"
proof (induction acts arbitrary: k acc)
  case Nil
  then show ?case by simp
next
  case (Cons a acts)
  show ?case
  proof (cases "decodeAction bcr k a")
    case (Inl e)
    then show ?thesis by simp
  next
    case (Inr action)
    with assms [of k] have "a \<noteq> act" by auto
    with Cons.prems have "act \<in> set acts" by simp
    then show ?thesis using Inr by (simp add: Cons.IH)
  qed
qed

lemma decodeAction_no_type:
  "action_type act = None \<Longrightarrow>
   decodeAction bcr j act =
     Inl (WithDetailf errBadActionType ''no action type provided on action %d'' [ArgInt j])"
  by (simp add: decodeAction_def)

lemma actionDecoder_None: "actionDecoder bcr t = None \<longleftrightarrow> t \<notin> registered"
  by (simp add: actionDecoder_def registered_def)

lemma decodeAction_unknown_type:
  "action_type act = Some typ \<Longrightarrow> typ \<notin> registered \<Longrightarrow>
   decodeAction bcr j act =
     Inl (WithDetailf errBadActionType ''unknown action type %q on action %d''
            [ArgString typ, ArgInt j])"
  using actionDecoder_None [of bcr "typ"] by (simp add: decodeAction_def)

subsection \<open>Signing instructions of a built template\<close>

text \<open>
  Claim C3. Whenever \<open>buildSingle\<close> succeeds, the \<open>SigningInstructions\<close> of the template it
  returns are not nil, whatever \<open>txbuilder.Build\<close> produced (they may be empty).
\<close>

theorem buildSingle_signing_instructions_not_nil:
  "buildSingle bcr now ctx req = Returns (Inr tpl) \<Longrightarrow> SigningInstructions tpl \<noteq> None"
  by (auto simp: buildSingle_def assemble_def Let_def split: sum.splits option.splits if_splits)

theorem buildSingle_signing_instructions_not_nil_witness:
  "buildSingle sample_builder 0 (Ctx 0) (sample_request []) =
     Returns (Inr (sample_template\<lparr>SigningInstructions := Some []\<rparr>))
   \<and> SigningInstructions (sample_template\<lparr>SigningInstructions := Some []\<rparr>) \<noteq> None"
proof -
  have run: "buildSingle sample_builder 0 (Ctx 0) (sample_request []) =
     Returns (Inr (sample_template\<lparr>SigningInstructions := Some []\<rparr>))"
    by (simp add: buildSingle_def assemble_def sample_builder_def sample_request_def
        sample_template_def)
  from buildSingle_signing_instructions_not_nil [OF run] run show ?thesis by simp
qed

subsection \<open>Runs on the sample collaborators\<close>

lemma sample_filterAliases: "filterAliases sample_builder ctx req = Inr req"
  by (simp add: sample_builder_def)

lemma decodeAction_retire_ok: "decodeAction sample_builder j retire_ok = Inr 2"
  by (simp add: decodeAction_def action_type_def actionDecoder_def retire_ok_def
      sample_builder_def sample_Marshal_def sample_decoder_def)

lemma decodeAction_retire_bad:
  "decodeAction sample_builder j retire_bad =
     Inl (WithDetailf errBadAction ''%s on action %d''
            [ArgString ''cannot decode bad1'', ArgInt j])"
  by (simp add: decodeAction_def action_type_def actionDecoder_def retire_bad_def
      sample_builder_def sample_Marshal_def sample_decoder_def sample_Error_def)

lemma decodeAction_issue_bad:
  "decodeAction sample_builder j issue_bad =
     Inl (WithDetailf errBadAction ''%s on action %d''
            [ArgString ''cannot decode bad2'', ArgInt j])"
  by (simp add: decodeAction_def action_type_def actionDecoder_def issue_bad_def
      sample_builder_def sample_Marshal_def sample_decoder_def sample_Error_def)

lemma action_type_untyped: "action_type untyped_action = None"
  by (simp add: action_type_def untyped_action_def)

lemma action_type_bogus: "action_type bogus_action = Some ''bogus''"
  by (simp add: action_type_def bogus_action_def)

lemma bogus_not_registered: "''bogus'' \<notin> registered"
  by (simp add: registered_def)

subsection \<open>Time to live\<close>

text \<open>What \<open>txbuilder.Build\<close> receives at line 81 and what \<open>buildSingle\<close> makes of its
  answer, for any TTL.\<close>

lemma buildSingle_Build_call:
  "filterAliases bcr ctx req0 = Inr req \<Longrightarrow>
   buildSingle bcr now ctx req0 =
     (case decodeActions bcr 0 (Actions req) [] of
        Inl err \<Rightarrow> Returns (Inl err)
      | Inr actions \<Rightarrow>
          (case txbuilder_Build bcr ctx (Tx req) actions
                  (time_Add now (if Duration (TTL req) = 0 then defaultTxTTL else Duration (TTL req))) of
             Inl err \<Rightarrow>
               (if errors_Root bcr err = ErrAction then
                  (case errors_Data_actions bcr err of
                     None \<Rightarrow> Panics
                   | Some innerErrs \<Rightarrow>
                       Returns (Inl (WithData err ''actions'' (map Format innerErrs))))
                else Returns (Inl err))
           | Inr None \<Rightarrow> Panics
           | Inr (Some tpl) \<Rightarrow>
               (if SigningInstructions tpl = None
                then Returns (Inr (tpl\<lparr>SigningInstructions := Some []\<rparr>))
                else Returns (Inr tpl))))"
  by (simp add: buildSingle_def assemble_def Let_def split: sum.splits)

lemma time_Add_default: "time_Add now defaultTxTTL = now + 5 * 60 * 1000000000"
  by (simp add: defaultTxTTL_def time_Minute_def time_Add_def)

text \<open>
  Claim C4. For every build request whose TTL is zero (Go's value of an unset TTL), once
  alias filtering has succeeded and has left the TTL field as the caller set it,
  \<open>buildSingle\<close> hands \<open>txbuilder.Build\<close> the expiry bound \<open>maxTime\<close> equal to the clock
  reading plus 5 minutes (5 * 60 * 10^9 nanoseconds), on every run that reaches line 81; the
  result of the build is made from what \<open>txbuilder.Build\<close> answers for that bound. A
  request with the TTL unset is the same request, so the two builds have the same bound.
\<close>

theorem buildSingle_zero_ttl_default:
  "filterAliases bcr ctx req0 = Inr req \<Longrightarrow> TTL req = TTL req0 \<Longrightarrow>
   Duration (TTL req0) = 0 \<Longrightarrow>
   buildSingle bcr now ctx req0 =
     (case decodeActions bcr 0 (Actions req) [] of
        Inl err \<Rightarrow> Returns (Inl err)
      | Inr actions \<Rightarrow>
          (case txbuilder_Build bcr ctx (Tx req) actions (now + 5 * 60 * 1000000000) of
             Inl err \<Rightarrow>
               (if errors_Root bcr err = ErrAction then
                  (case errors_Data_actions bcr err of
                     None \<Rightarrow> Panics
                   | Some innerErrs \<Rightarrow>
                       Returns (Inl (WithData err ''actions'' (map Format innerErrs))))
                else Returns (Inl err))
           | Inr None \<Rightarrow> Panics
           | Inr (Some tpl) \<Rightarrow>
               (if SigningInstructions tpl = None
                then Returns (Inr (tpl\<lparr>SigningInstructions := Some []\<rparr>))
                else Returns (Inr tpl))))"
  by (simp add: buildSingle_Build_call time_Add_default cong: sum.case_cong)

theorem buildSingle_zero_ttl_default_witness:
  "filterAliases stamping_builder (Ctx 0) (sample_request [retire_ok]) =
     Inr (sample_request [retire_ok])
   \<and> Duration (TTL (sample_request [retire_ok])) = 0
   \<and> txbuilder_Build stamping_builder (Ctx 0) None [2] 300000001000 = Inr (Some sample_template)
   \<and> txbuilder_Build stamping_builder (Ctx 0) None [2] 1000 = Inl (Ext ''unexpected expiry bound'')
   \<and> buildSingle stamping_builder 1000 (Ctx 0) (sample_request [retire_ok]) =
       Returns (Inr (sample_template\<lparr>SigningInstructions := Some []\<rparr>))"
proof -
  let ?req = "sample_request [retire_ok]"
  have f: "filterAliases stamping_builder (Ctx 0) ?req = Inr ?req"
    by (simp add: stamping_builder_def sample_builder_def)
  have z: "Duration (TTL ?req) = 0"
    by (simp add: sample_request_def)
  have d: "decodeActions stamping_builder 0 (Actions ?req) [] = Inr [2]"
    by (simp add: sample_request_def decodeAction_def action_type_def actionDecoder_def
        retire_ok_def stamping_builder_def sample_builder_def sample_Marshal_def
        sample_decoder_def)
  have t: "Tx ?req = None"
    by (simp add: sample_request_def)
  have b1: "txbuilder_Build stamping_builder (Ctx 0) None [2] 300000001000 =
      Inr (Some sample_template)"
    by (simp add: stamping_builder_def)
  have b2: "txbuilder_Build stamping_builder (Ctx 0) None [2] 1000 =
      Inl (Ext ''unexpected expiry bound'')"
    by (simp add: stamping_builder_def)
  from buildSingle_zero_ttl_default [OF f refl z, of 1000]
  have "buildSingle stamping_builder 1000 (Ctx 0) ?req =
      Returns (Inr (sample_template\<lparr>SigningInstructions := Some []\<rparr>))"
    by (simp add: d t b1 sample_template_def)
  with f z b1 b2 show ?thesis by blast
qed

subsection \<open>Actions without a type\<close>

text \<open>
  Claim C5, amended. After alias filtering has succeeded, a request whose action at index
  \<open>i\<close> has no string under \<open>type\<close> never builds: \<open>buildSingle\<close> returns an error.
  When the loop has passed the actions before \<open>i\<close> without an error, the error is
  \<open>errBadActionType\<close> with the detail "no action type provided on action i".
\<close>

theorem buildSingle_missing_type:
  assumes "filterAliases bcr ctx req0 = Inr req"
    and "i < length (Actions req)"
    and "action_type (Actions req ! i) = None"
  shows "(\<exists>e. buildSingle bcr now ctx req0 = Returns (Inl e)) \<and>
    (\<forall>acc. decodeActions bcr 0 (take i (Actions req)) [] = Inr acc \<longrightarrow>
       buildSingle bcr now ctx req0 =
         Returns (Inl (WithDetailf errBadActionType ''no action type provided on action %d''
                         [ArgInt i])))"
proof (intro conjI allI impI)
  have mem: "Actions req ! i \<in> set (Actions req)"
    using assms(2) by simp
  have "isl (decodeAction bcr j (Actions req ! i))" for j
    by (simp add: decodeAction_no_type assms(3))
  then have "isl (decodeActions bcr 0 (Actions req) [])"
    using mem by (rule decodeActions_fails)
  then show "\<exists>e. buildSingle bcr now ctx req0 = Returns (Inl e)"
    using assms(1) by (auto simp: buildSingle_def isl_def)
next
  fix acc
  assume "decodeActions bcr 0 (take i (Actions req)) [] = Inr acc"
  with assms(2) have "decodeActions bcr 0 (Actions req) [] =
      Inl (WithDetailf errBadActionType ''no action type provided on action %d'' [ArgInt i])"
    by (rule decodeActions_stops_at) (simp add: decodeAction_no_type assms(3))
  then show "buildSingle bcr now ctx req0 =
      Returns (Inl (WithDetailf errBadActionType ''no action type provided on action %d''
                      [ArgInt i]))"
    using assms(1) by (simp add: buildSingle_def)
qed

theorem buildSingle_missing_type_witness:
  "filterAliases sample_builder (Ctx 0) (sample_request [retire_ok, untyped_action]) =
     Inr (sample_request [retire_ok, untyped_action])
   \<and> 1 < length (Actions (sample_request [retire_ok, untyped_action]))
   \<and> action_type (Actions (sample_request [retire_ok, untyped_action]) ! 1) = None
   \<and> decodeActions sample_builder 0 (take 1 (Actions (sample_request [retire_ok, untyped_action]))) []
       = Inr [2]
   \<and> buildSingle sample_builder 0 (Ctx 0) (sample_request [retire_ok, untyped_action]) =
       Returns (Inl (WithDetailf errBadActionType ''no action type provided on action %d''
                       [ArgInt 1]))"
proof -
  let ?req = "sample_request [retire_ok, untyped_action]"
  have f: "filterAliases sample_builder (Ctx 0) ?req = Inr ?req"
    by (rule sample_filterAliases)
  have l: "1 < length (Actions ?req)"
    by (simp add: sample_request_def)
  have n: "action_type (Actions ?req ! 1) = None"
    by (simp add: sample_request_def action_type_untyped)
  have d: "decodeActions sample_builder 0 (take 1 (Actions ?req)) [] = Inr [2]"
    by (simp add: sample_request_def decodeAction_retire_ok)
  from buildSingle_missing_type [OF f l n, of 0] d
  have "buildSingle sample_builder 0 (Ctx 0) ?req =
      Returns (Inl (WithDetailf errBadActionType ''no action type provided on action %d''
                      [ArgInt 1]))"
    by blast
  with f l n d show ?thesis by blast
qed

text \<open>
  The claim as first stated fails for the actions \<open>[{type: bogus}, {}]\<close>: the action at
  index 1 has no type, and the error names the unknown type of the action at index 0.
\<close>

theorem buildSingle_missing_type_counterexample:
  "action_type (Actions (sample_request [bogus_action, untyped_action]) ! 1) = None
   \<and> buildSingle sample_builder 0 (Ctx 0) (sample_request [bogus_action, untyped_action]) =
       Returns (Inl (WithDetailf errBadActionType ''unknown action type %q on action %d''
                       [ArgString ''bogus'', ArgInt 0]))
   \<and> buildSingle sample_builder 0 (Ctx 0) (sample_request [bogus_action, untyped_action]) \<noteq>
       Returns (Inl (WithDetailf errBadActionType ''no action type provided on action %d''
                       [ArgInt 1]))"
  by (simp add: buildSingle_def sample_filterAliases sample_request_def action_type_untyped
      decodeAction_unknown_type [OF action_type_bogus bogus_not_registered])

subsection \<open>Actions of an unknown type\<close>

text \<open>
  Claim C6, amended. The registry lookup \<open>actionDecoder\<close> finds no decoder exactly for the
  tags outside the nine registered ones. After alias filtering has succeeded, a request
  whose action at index \<open>i\<close> has a string \<open>type\<close> outside the registry never builds:
  \<open>buildSingle\<close> returns an error. When the loop has passed the actions before \<open>i\<close>
  without an error, the error is \<open>errBadActionType\<close> with a detail that names the unknown
  tag and the index \<open>i\<close>.
\<close>

theorem buildSingle_unknown_type:
  "(actionDecoder bcr t = None \<longleftrightarrow> t \<notin> registered) \<and>
   (filterAliases bcr ctx req0 = Inr req \<and> i < length (Actions req) \<and>
    action_type (Actions req ! i) = Some ty \<and> ty \<notin> registered \<longrightarrow>
      (\<exists>e. buildSingle bcr now ctx req0 = Returns (Inl e)) \<and>
      (\<forall>acc. decodeActions bcr 0 (take i (Actions req)) [] = Inr acc \<longrightarrow>
         buildSingle bcr now ctx req0 =
           Returns (Inl (WithDetailf errBadActionType ''unknown action type %q on action %d''
                           [ArgString ty, ArgInt i]))))"
proof (intro conjI impI allI; (elim conjE)?)
  show "actionDecoder bcr t = None \<longleftrightarrow> t \<notin> registered"
    by (rule actionDecoder_None)
next
  assume f: "filterAliases bcr ctx req0 = Inr req" and l: "i < length (Actions req)"
    and a: "action_type (Actions req ! i) = Some ty" and u: "ty \<notin> registered"
  have mem: "Actions req ! i \<in> set (Actions req)"
    using l by simp
  have "isl (decodeAction bcr j (Actions req ! i))" for j
    by (simp add: decodeAction_unknown_type [OF a u])
  then have "isl (decodeActions bcr 0 (Actions req) [])"
    using mem by (rule decodeActions_fails)
  then show "\<exists>e. buildSingle bcr now ctx req0 = Returns (Inl e)"
    using f by (auto simp: buildSingle_def isl_def)
next
  fix acc
  assume f: "filterAliases bcr ctx req0 = Inr req" and l: "i < length (Actions req)"
    and a: "action_type (Actions req ! i) = Some ty" and u: "ty \<notin> registered"
    and p: "decodeActions bcr 0 (take i (Actions req)) [] = Inr acc"
  from l p have "decodeActions bcr 0 (Actions req) [] =
      Inl (WithDetailf errBadActionType ''unknown action type %q on action %d''
             [ArgString ty, ArgInt i])"
    by (rule decodeActions_stops_at) (rule decodeAction_unknown_type [OF a u])
  then show "buildSingle bcr now ctx req0 =
      Returns (Inl (WithDetailf errBadActionType ''unknown action type %q on action %d''
                      [ArgString ty, ArgInt i]))"
    using f by (simp add: buildSingle_def)
qed

theorem buildSingle_unknown_type_witness:
  "filterAliases sample_builder (Ctx 0) (sample_request [retire_ok, bogus_action]) =
     Inr (sample_request [retire_ok, bogus_action])
   \<and> 1 < length (Actions (sample_request [retire_ok, bogus_action]))
   \<and> action_type (Actions (sample_request [retire_ok, bogus_action]) ! 1) = Some ''bogus''
   \<and> ''bogus'' \<notin> registered
   \<and> decodeActions sample_builder 0 (take 1 (Actions (sample_request [retire_ok, bogus_action]))) []
       = Inr [2]
   \<and> actionDecoder sample_builder ''bogus'' = None
   \<and> buildSingle sample_builder 0 (Ctx 0) (sample_request [retire_ok, bogus_action]) =
       Returns (Inl (WithDetailf errBadActionType ''unknown action type %q on action %d''
                       [ArgString ''bogus'', ArgInt 1]))"
proof -
  let ?req = "sample_request [retire_ok, bogus_action]"
  have f: "filterAliases sample_builder (Ctx 0) ?req = Inr ?req"
    by (rule sample_filterAliases)
  have l: "1 < length (Actions ?req)"
    by (simp add: sample_request_def)
  have a: "action_type (Actions ?req ! 1) = Some ''bogus''"
    by (simp add: sample_request_def action_type_bogus)
  have d: "decodeActions sample_builder 0 (take 1 (Actions ?req)) [] = Inr [2]"
    by (simp add: sample_request_def decodeAction_retire_ok)
  note inst = buildSingle_unknown_type [of sample_builder "''bogus''" "Ctx 0" ?req ?req 1
      "''bogus''" 0]
  from inst bogus_not_registered have r: "actionDecoder sample_builder ''bogus'' = None"
    by blast
  from inst f l a bogus_not_registered d
  have "buildSingle sample_builder 0 (Ctx 0) ?req =
      Returns (Inl (WithDetailf errBadActionType ''unknown action type %q on action %d''
                      [ArgString ''bogus'', ArgInt 1]))"
    by blast
  with f l a bogus_not_registered d r show ?thesis by blast
qed

text \<open>
  The claim as first stated fails for the actions \<open>[{}, {type: bogus}]\<close>: the action at
  index 1 has an unknown type, and the error reports the missing type of the action at
  index 0.
\<close>

theorem buildSingle_unknown_type_counterexample:
  "action_type (Actions (sample_request [untyped_action, bogus_action]) ! 1) = Some ''bogus''
   \<and> ''bogus'' \<notin> registered
   \<and> buildSingle sample_builder 0 (Ctx 0) (sample_request [untyped_action, bogus_action]) =
       Returns (Inl (WithDetailf errBadActionType ''no action type provided on action %d''
                       [ArgInt 0]))
   \<and> buildSingle sample_builder 0 (Ctx 0) (sample_request [untyped_action, bogus_action]) \<noteq>
       Returns (Inl (WithDetailf errBadActionType ''unknown action type %q on action %d''
                       [ArgString ''bogus'', ArgInt 1]))"
  by (simp add: buildSingle_def sample_filterAliases sample_request_def action_type_bogus
      bogus_not_registered decodeAction_no_type [OF action_type_untyped])

subsection \<open>Payloads that fail to decode\<close>

text \<open>
  Claim C2, amended. \<open>buildSingle\<close> stops at the first action whose payload fails to
  decode: when alias filtering has succeeded, the loop has passed the actions before \<open>i\<close>
  without an error, and the decoder of the action at index \<open>i\<close> rejects its marshalled
  payload with \<open>err\<close>, the result is \<open>errBadAction\<close> with a detail made of the inner
  message \<open>err.Error()\<close> and the index \<open>i\<close>, whatever the actions after \<open>i\<close> are.
\<close>

theorem buildSingle_decode_failure:
  assumes "filterAliases bcr ctx req0 = Inr req"
    and "i < length (Actions req)"
    and "decodeActions bcr 0 (take i (Actions req)) [] = Inr acc"
    and "action_type (Actions req ! i) = Some ty"
    and "actionDecoder bcr ty = Some decoder"
    and "json_Marshal bcr (Actions req ! i) = Inr b"
    and "decoder b = Inl err"
  shows "buildSingle bcr now ctx req0 =
    Returns (Inl (WithDetailf errBadAction ''%s on action %d''
                    [ArgString (error_Error bcr err), ArgInt i]))"
proof -
  have "decodeAction bcr i (Actions req ! i) =
      Inl (WithDetailf errBadAction ''%s on action %d''
             [ArgString (error_Error bcr err), ArgInt i])"
    using assms(4-7) by (simp add: decodeAction_def)
  with assms(2,3) have "decodeActions bcr 0 (Actions req) [] =
      Inl (WithDetailf errBadAction ''%s on action %d''
             [ArgString (error_Error bcr err), ArgInt i])"
    by (rule decodeActions_stops_at)
  then show ?thesis
    using assms(1) by (simp add: buildSingle_def)
qed

theorem buildSingle_decode_failure_witness:
  "filterAliases sample_builder (Ctx 0) (sample_request [retire_ok, retire_bad, issue_bad]) =
     Inr (sample_request [retire_ok, retire_bad, issue_bad])
   \<and> 1 < length (Actions (sample_request [retire_ok, retire_bad, issue_bad]))
   \<and> decodeActions sample_builder 0
        (take 1 (Actions (sample_request [retire_ok, retire_bad, issue_bad]))) [] = Inr [2]
   \<and> action_type (Actions (sample_request [retire_ok, retire_bad, issue_bad]) ! 1) = Some ''retire''
   \<and> actionDecoder sample_builder ''retire'' = Some sample_decoder
   \<and> json_Marshal sample_builder (Actions (sample_request [retire_ok, retire_bad, issue_bad]) ! 1)
       = Inr ''bad1''
   \<and> sample_decoder ''bad1'' = Inl (Ext ''cannot decode bad1'')
   \<and> buildSingle sample_builder 0 (Ctx 0) (sample_request [retire_ok, retire_bad, issue_bad]) =
       Returns (Inl (WithDetailf errBadAction ''%s on action %d''
                       [ArgString ''cannot decode bad1'', ArgInt 1]))"
proof -
  let ?req = "sample_request [retire_ok, retire_bad, issue_bad]"
  have f: "filterAliases sample_builder (Ctx 0) ?req = Inr ?req"
    by (rule sample_filterAliases)
  have l: "1 < length (Actions ?req)"
    by (simp add: sample_request_def)
  have d: "decodeActions sample_builder 0 (take 1 (Actions ?req)) [] = Inr [2]"
    by (simp add: sample_request_def decodeAction_retire_ok)
  have a: "action_type (Actions ?req ! 1) = Some ''retire''"
    by (simp add: sample_request_def action_type_def retire_bad_def)
  have r: "actionDecoder sample_builder ''retire'' = Some sample_decoder"
    by (simp add: actionDecoder_def sample_builder_def)
  have m: "json_Marshal sample_builder (Actions ?req ! 1) = Inr ''bad1''"
    by (simp add: sample_request_def sample_builder_def sample_Marshal_def retire_bad_def)
  have e: "sample_decoder ''bad1'' = Inl (Ext ''cannot decode bad1'')"
    by (simp add: sample_decoder_def)
  have s: "error_Error sample_builder (Ext ''cannot decode bad1'') = ''cannot decode bad1''"
    by (simp add: sample_builder_def sample_Error_def)
  from buildSingle_decode_failure [OF f l d a r m e, of 0]
  have "buildSingle sample_builder 0 (Ctx 0) ?req =
      Returns (Inl (WithDetailf errBadAction ''%s on action %d''
                      [ArgString ''cannot decode bad1'', ArgInt 1]))"
    by (simp only: s)
  with f l d a r m e show ?thesis by blast
qed

text \<open>
  The claim as first stated fails for two actions whose payloads both fail to decode: the
  loop would report the second one at index 1, and the request returns with the error of
  the first one alone.
\<close>

theorem buildSingle_decode_failure_counterexample:
  "decodeAction sample_builder 0 retire_bad =
     Inl (WithDetailf errBadAction ''%s on action %d'' [ArgString ''cannot decode bad1'', ArgInt 0])
   \<and> decodeAction sample_builder 1 issue_bad =
     Inl (WithDetailf errBadAction ''%s on action %d'' [ArgString ''cannot decode bad2'', ArgInt 1])
   \<and> buildSingle sample_builder 0 (Ctx 0) (sample_request [retire_bad, issue_bad]) =
       Returns (Inl (WithDetailf errBadAction ''%s on action %d''
                       [ArgString ''cannot decode bad1'', ArgInt 0]))"
  by (simp add: buildSingle_def sample_filterAliases sample_request_def decodeAction_retire_bad
      decodeAction_issue_bad)

section \<open>Properties of the chain side\<close>

lemma submitSingle_calls:
  "calls (snd (submitSingle bcr c tpl w)) =
     calls w @ (case Transaction tpl of None \<Rightarrow> [] | Some tx \<Rightarrow> [EvFinalizeTx c (Some tx)])"
  by (auto simp: submitSingle_def call_FinalizeTx_def split: option.splits prod.splits)

subsection \<open>Submitting a template without a transaction\<close>

text \<open>
  Claim C7. For a template whose \<open>Transaction\<close> is nil, \<open>submitSingle\<close> returns the wrapped
  \<open>ErrMissingRawTx\<close>, and the world is the one it started from: \<open>txbuilder.FinalizeTx\<close> has
  not been called and the pool is untouched. The result is a returned error, not a panic.
\<close>

theorem submitSingle_missing_raw_tx:
  "Transaction tpl = None \<Longrightarrow> submitSingle bcr ctx tpl w = (Inl (Wrap ErrMissingRawTx []), w)"
  by (simp add: submitSingle_def)

theorem submitSingle_missing_raw_tx_witness:
  "Transaction (sample_template\<lparr>Transaction := None\<rparr>) = None
   \<and> submitSingle sample_chain nil_ctx (sample_template\<lparr>Transaction := None\<rparr>) fresh_world =
       (Inl (Wrap ErrMissingRawTx []), fresh_world)"
proof -
  have h: "Transaction (sample_template\<lparr>Transaction := None\<rparr>) = None"
    by simp
  from submitSingle_missing_raw_tx [OF h] h show ?thesis by blast
qed

subsection \<open>Sign, then submit\<close>

text \<open>
  Claim C8. When the sign stage of \<open>signSubmit\<close> fails with \<open>e\<close>, the response is
  \<open>resWrapper(nil, e)\<close>, the chain is unchanged and the only call made is the one to
  \<open>txbuilder.Sign\<close>: \<open>submitSingle\<close>, hence \<open>FinalizeTx\<close>, is not run. On every run the
  first call made is the one to \<open>txbuilder.Sign\<close>.
\<close>

theorem signSubmit_sign_failure:
  "(txbuilder_Sign bcr ctx (Txs x) (Auth x) = (Some e, txs) \<longrightarrow>
      signSubmit bcr ctx x w = (resWrapper_err e, w\<lparr>calls := calls w @ [EvSign ctx (Auth x)]\<rparr>))
   \<and> take (Suc (length (calls w))) (calls (snd (signSubmit bcr ctx x w))) =
       calls w @ [EvSign ctx (Auth x)]"
  by (auto simp: signSubmit_def Let_def submitSingle_def call_FinalizeTx_def
      split: prod.splits option.splits sum.splits)

theorem signSubmit_sign_failure_witness:
  "txbuilder_Sign sample_chain (Ctx 0) (Txs \<lparr>Auth = ''guess'', Txs = sample_template\<rparr>)
      (Auth \<lparr>Auth = ''guess'', Txs = sample_template\<rparr>) = (Some (Ext ''bad credential''), sample_template)
   \<and> signSubmit sample_chain (Ctx 0) \<lparr>Auth = ''guess'', Txs = sample_template\<rparr> fresh_world =
       (resWrapper_err (Ext ''bad credential''), \<lparr>chain = [], calls = [EvSign (Ctx 0) ''guess'']\<rparr>)"
proof -
  let ?x = "\<lparr>Auth = ''guess'', Txs = sample_template\<rparr>"
  have h: "txbuilder_Sign sample_chain (Ctx 0) (Txs ?x) (Auth ?x) =
      (Some (Ext ''bad credential''), sample_template)"
    by (simp add: sample_chain_def)
  from signSubmit_sign_failure [of sample_chain "Ctx 0" ?x "Ext ''bad credential''"
      sample_template fresh_world] h
  have "signSubmit sample_chain (Ctx 0) ?x fresh_world =
      (resWrapper_err (Ext ''bad credential''),
       fresh_world\<lparr>calls := calls fresh_world @ [EvSign (Ctx 0) (Auth ?x)]\<rparr>)"
    by blast
  with h show ?thesis by (simp add: fresh_world_def)
qed

subsection \<open>The caller's context\<close>

text \<open>
  Claim C10, amended. The outcome of \<open>submit\<close> does not depend on the caller's context.
  Both handlers run \<open>submitSingle\<close> with the nil context: every call of
  \<open>txbuilder.FinalizeTx\<close> they make receives \<open>nil_ctx\<close>. In \<open>signSubmit\<close> the caller's
  context reaches the sign stage only: two runs that differ in the context alone give the
  same response and the same chain whenever \<open>txbuilder.Sign\<close> answers alike for the two
  contexts.
\<close>

theorem submit_context_independent:
  "submit bcr ctx1 tpl w = submit bcr ctx2 tpl w
   \<and> finalize_contexts (drop (length (calls w)) (calls (snd (submit bcr ctx1 tpl w))))
       \<in> {[], [nil_ctx]}
   \<and> finalize_contexts (drop (length (calls w)) (calls (snd (signSubmit bcr ctx1 x w))))
       \<in> {[], [nil_ctx]}
   \<and> (txbuilder_Sign bcr ctx1 (Txs x) (Auth x) = txbuilder_Sign bcr ctx2 (Txs x) (Auth x) \<longrightarrow>
        fst (signSubmit bcr ctx1 x w) = fst (signSubmit bcr ctx2 x w) \<and>
        chain (snd (signSubmit bcr ctx1 x w)) = chain (snd (signSubmit bcr ctx2 x w)))"
proof (intro conjI impI)
  show "submit bcr ctx1 tpl w = submit bcr ctx2 tpl w"
    by (simp add: submit_def)
  show "finalize_contexts (drop (length (calls w)) (calls (snd (submit bcr ctx1 tpl w))))
      \<in> {[], [nil_ctx]}"
    by (auto simp: submit_def submitSingle_def call_FinalizeTx_def
        split: prod.splits option.splits sum.splits)
  show "finalize_contexts (drop (length (calls w)) (calls (snd (signSubmit bcr ctx1 x w))))
      \<in> {[], [nil_ctx]}"
    by (auto simp: signSubmit_def Let_def submitSingle_def call_FinalizeTx_def
        split: prod.splits option.splits sum.splits)
next
  assume "txbuilder_Sign bcr ctx1 (Txs x) (Auth x) = txbuilder_Sign bcr ctx2 (Txs x) (Auth x)"
  then show "fst (signSubmit bcr ctx1 x w) = fst (signSubmit bcr ctx2 x w)"
    and "chain (snd (signSubmit bcr ctx1 x w)) = chain (snd (signSubmit bcr ctx2 x w))"
    by (auto simp: signSubmit_def Let_def submitSingle_def call_FinalizeTx_def
        split: prod.splits option.splits sum.splits)
qed


theorem submit_context_independent_witness:
  "txbuilder_Sign sample_chain (Ctx 1) (Txs \<lparr>Auth = ''secret'', Txs = sample_template\<rparr>)
       (Auth \<lparr>Auth = ''secret'', Txs = sample_template\<rparr>) =
     txbuilder_Sign sample_chain (Ctx 2) (Txs \<lparr>Auth = ''secret'', Txs = sample_template\<rparr>)
       (Auth \<lparr>Auth = ''secret'', Txs = sample_template\<rparr>)
   \<and> fst (signSubmit sample_chain (Ctx 1) \<lparr>Auth = ''secret'', Txs = sample_template\<rparr> fresh_world) =
       resWrapper_data [''txid'' \<mapsto> ''ab01'']
   \<and> fst (signSubmit sample_chain (Ctx 2) \<lparr>Auth = ''secret'', Txs = sample_template\<rparr> fresh_world) =
       resWrapper_data [''txid'' \<mapsto> ''ab01'']"
proof -
  let ?x = "\<lparr>Auth = ''secret'', Txs = sample_template\<rparr>"
  have h: "txbuilder_Sign sample_chain (Ctx 1) (Txs ?x) (Auth ?x) =
      txbuilder_Sign sample_chain (Ctx 2) (Txs ?x) (Auth ?x)"
    by (simp add: sample_chain_def)
  have one: "fst (signSubmit sample_chain (Ctx 1) ?x fresh_world) =
      resWrapper_data [''txid'' \<mapsto> ''ab01'']"
    by (simp add: signSubmit_def sample_chain_def sample_template_def sample_tx_def
        fresh_world_def submitSingle_def call_FinalizeTx_def)
  from submit_context_independent [of sample_chain "Ctx 1" sample_template fresh_world
      "Ctx 2" ?x] h
  have "fst (signSubmit sample_chain (Ctx 1) ?x fresh_world) =
      fst (signSubmit sample_chain (Ctx 2) ?x fresh_world)"
    by blast
  with h one show ?thesis by simp
qed

text \<open>
  The claim as first stated fails for \<open>signSubmit\<close> with a signer that honours its context:
  line 215 hands the caller's context to \<open>txbuilder.Sign\<close>, so a cancelled context turns a
  successful sign-submit into a sign error.
\<close>

theorem signSubmit_context_counterexample:
  "fst (signSubmit cancelling_chain (Ctx 0) \<lparr>Auth = ''secret'', Txs = sample_template\<rparr> fresh_world) =
     resWrapper_data [''txid'' \<mapsto> ''ab01'']
   \<and> fst (signSubmit cancelling_chain (Ctx 1) \<lparr>Auth = ''secret'', Txs = sample_template\<rparr> fresh_world) =
     resWrapper_err (Ext ''context canceled'')"
  by (simp add: signSubmit_def cancelling_chain_def sample_chain_def sample_template_def
      sample_tx_def fresh_world_def submitSingle_def call_FinalizeTx_def)

subsection \<open>Waiting for confirmation\<close>

text \<open>With the call of the waiter commented out, waiting until "confirmed" is the same as
  not waiting, and the only calls made are \<open>chain.Height\<close> and \<open>txbuilder.FinalizeTx\<close>.\<close>

lemma finalizeTxWait_confirmed_as_none:
  "finalizeTxWait bcr ctx txTemplate ''confirmed'' w = finalizeTxWait bcr ctx txTemplate ''none'' w"
  by (simp add: finalizeTxWait_def Let_def split: prod.splits)

lemma finalizeTxWait_calls:
  "calls (snd (finalizeTxWait bcr ctx txTemplate waitUntil w)) =
     calls w @ [EvHeight, EvFinalizeTx ctx (Transaction txTemplate)]"
  by (auto simp: finalizeTxWait_def Let_def call_FinalizeTx_def split: prod.splits)

text \<open>
  Claim C1 says that \<open>finalizeTxWait\<close> with \<open>waitUntil = "confirmed"\<close> returns nil only
  after the transaction has been seen in a landed block. On the sample chain, which stands
  at height 5 and on which no block holds the transaction, the call returns nil right after
  the admission to the pool: no height is awaited and no block is fetched.
\<close>

theorem finalizeTxWait_confirmed_returns_unconfirmed:
  "finalizeTxWait sample_chain (Ctx 0) sample_template ''confirmed'' fresh_world =
     (None, \<lparr>chain = [''ab01''], calls = [EvHeight, EvFinalizeTx (Ctx 0) (Some sample_tx)]\<rparr>)
   \<and> inspected [EvHeight, EvFinalizeTx (Ctx 0) (Some sample_tx)] = []
   \<and> awaited [EvHeight, EvFinalizeTx (Ctx 0) (Some sample_tx)] = []"
  by (simp add: finalizeTxWait_def call_FinalizeTx_def sample_chain_def sample_template_def
      sample_tx_def fresh_world_def)

subsection \<open>The heights of the confirmation waiter\<close>

lemma heights_from_Suc: "heights_from H (Suc n) = (H + 1) # heights_from (H + 1) n"
  by (simp add: heights_from_def map_upt_Suc ac_simps del: upt_Suc)

lemma consecutive_heights_from: "consecutive H hs \<Longrightarrow> hs = heights_from H (length hs)"
proof (induction hs arbitrary: H)
  case Nil
  then show ?case by (simp add: heights_from_def)
next
  case (Cons h hs)
  from Cons.prems have "h = H + 1" and "consecutive h hs"
    by auto
  with Cons.IH [of h] show ?case
    by (simp add: heights_from_Suc)
qed

lemma unat_succ: "unat (H :: 64 word) + 1 < 2 ^ 64 \<Longrightarrow> unat (H + 1) = unat H + 1"
  by (simp add: unat_word_ariths)

lemma consecutive_increasing:
  "consecutive H hs \<Longrightarrow> unat H + length hs < 2 ^ 64 \<Longrightarrow>
   sorted_wrt (<) hs \<and> (\<forall>h \<in> set hs. H < h)"
proof (induction hs arbitrary: H)
  case Nil
  then show ?case by simp
next
  case (Cons h hs)
  from Cons.prems have h: "h = H + 1" and rest: "consecutive h hs"
    by auto
  from Cons.prems(2) have "unat H + 1 < 2 ^ 64"
    by simp
  then have u: "unat h = unat H + 1"
    unfolding h by (rule unat_succ)
  then have lt: "H < h"
    by (simp add: word_less_nat_alt)
  from u Cons.prems(2) have "unat h + length hs < 2 ^ 64"
    by simp
  with rest have "sorted_wrt (<) hs \<and> (\<forall>x \<in> set hs. h < x)"
    by (rule Cons.IH)
  with lt show ?case
    by auto
qed


text \<open>Every run of the waiter adds calls to the log whose awaited heights, and whose fetched
  heights, go up by one from \<open>H + 1\<close>; a height is fetched only after it was awaited.\<close>

lemma call_FinalizeTx_calls:
  "call_FinalizeTx bcr ctx tx w = (err, w') \<Longrightarrow> calls w' = calls w @ [EvFinalizeTx ctx tx]"
  by (auto simp: call_FinalizeTx_def split: prod.splits)

lemma waitForTxInBlock_calls:
  "\<exists>es. calls (snd (waitForTxInBlock bcr ctx tx H wakes w)) = calls w @ es
     \<and> consecutive H (awaited es) \<and> consecutive H (inspected es)
     \<and> length (inspected es) \<le> length (awaited es)"
proof (induction wakes arbitrary: H w)
  case Nil
  then show ?case by (simp add: Let_def)
next
  case (Cons wake wakes)
  show ?case
  proof (cases "ctx = nil_ctx")
    case True
    then show ?thesis by simp
  next
    case live: False
    show ?thesis
    proof (cases wake)
      case (ctx_Done e)
      with live show ?thesis by (simp add: Let_def)
    next
      case (block_landed c)
      let ?w2 = "w\<lparr>chain := c, calls := calls w @ [EvBlockWaiter (H + 1), EvGetBlockByHeight (H + 1)]\<rparr>"
      show ?thesis
      proof (cases "chain_GetBlockByHeight bcr c (H + 1)")
        case (Inl err)
        with live block_landed show ?thesis by (simp add: Let_def)
      next
        case (Inr b)
        show ?thesis
        proof (cases "txInBlock (Transactions b) tx")
          case Panics
          with live block_landed Inr show ?thesis by (simp add: Let_def)
        next
          case (Returns found)
          show ?thesis
          proof (cases found)
            case True
            with live block_landed Inr Returns show ?thesis by (simp add: Let_def)
          next
            case False
            obtain err w3 where fin: "call_FinalizeTx bcr ctx tx ?w2 = (err, w3)"
              by (cases "call_FinalizeTx bcr ctx tx ?w2")
            then have w3: "calls w3 =
                calls w @ [EvBlockWaiter (H + 1), EvGetBlockByHeight (H + 1), EvFinalizeTx ctx tx]"
              by (simp add: call_FinalizeTx_calls)
            show ?thesis
            proof (cases err)
              case (Some e)
              with live block_landed Inr Returns False fin w3 show ?thesis
                by (simp add: Let_def)
            next
              case None
              from Cons.IH [of "H + 1" w3] obtain es where
                es: "calls (snd (waitForTxInBlock bcr ctx tx (H + 1) wakes w3)) = calls w3 @ es"
                  "consecutive (H + 1) (awaited es)" "consecutive (H + 1) (inspected es)"
                  "length (inspected es) \<le> length (awaited es)"
                by blast
              from live block_landed Inr Returns False fin None
              have "waitForTxInBlock bcr ctx tx H (wake # wakes) w =
                  waitForTxInBlock bcr ctx tx (H + 1) wakes w3"
                by (simp add: Let_def)
              with es w3 show ?thesis
                by simp
            qed
          qed
        qed
      qed
    qed
  qed
qed


lemma heights_from_take: "m \<le> n \<Longrightarrow> take m (heights_from H n) = heights_from H m"
  by (simp add: heights_from_def take_map min_absorb1 del: upt_Suc)

lemma sample_wait:
  "calls (snd (waitForTxInBlock sample_chain (Ctx 0) (Some sample_tx) 5
       [block_landed [], block_landed [''ab01''], ctx_Done (Ext ''context canceled'')] fresh_world)) =
     [EvBlockWaiter 6, EvGetBlockByHeight 6, EvFinalizeTx (Ctx 0) (Some sample_tx),
      EvBlockWaiter 7, EvGetBlockByHeight 7, EvFinalizeTx (Ctx 0) (Some sample_tx),
      EvBlockWaiter 8]"
  by (simp add: sample_chain_def sample_tx_def fresh_world_def call_FinalizeTx_def)

text \<open>
  Claim C9, amended. In every run of \<open>waitForTxInBlock\<close> started from the height \<open>H\<close>, the
  heights handed to the block waiter are \<open>H + 1, H + 2, \<dots>\<close> in the arithmetic of uint64,
  in this order, and the heights whose block is fetched are an initial part of them. As
  long as the count does not pass the end of uint64 (\<open>H\<close> plus the number of rounds is
  below 2^64), they are strictly increasing, no height occurs twice, and each one is above
  \<open>H\<close>.
\<close>

theorem waitForTxInBlock_heights:
  "heights_awaited bcr ctx tx H wakes w =
     heights_from H (length (heights_awaited bcr ctx tx H wakes w))
   \<and> heights_inspected bcr ctx tx H wakes w =
       take (length (heights_inspected bcr ctx tx H wakes w)) (heights_awaited bcr ctx tx H wakes w)
   \<and> (unat H + length (heights_awaited bcr ctx tx H wakes w) < 2 ^ 64 \<longrightarrow>
        sorted_wrt (<) (heights_awaited bcr ctx tx H wakes w)
        \<and> distinct (heights_awaited bcr ctx tx H wakes w)
        \<and> (\<forall>h \<in> set (heights_awaited bcr ctx tx H wakes w). H < h))"
proof -
  from waitForTxInBlock_calls [of bcr ctx tx H wakes w] obtain es where
    es: "calls (snd (waitForTxInBlock bcr ctx tx H wakes w)) = calls w @ es"
      and aw: "consecutive H (awaited es)" and ins: "consecutive H (inspected es)"
      and le: "length (inspected es) \<le> length (awaited es)"
    by blast
  have a: "heights_awaited bcr ctx tx H wakes w = awaited es"
    by (simp add: heights_awaited_def es)
  have i: "heights_inspected bcr ctx tx H wakes w = inspected es"
    by (simp add: heights_inspected_def es)
  have a_eq: "awaited es = heights_from H (length (awaited es))"
    using aw by (rule consecutive_heights_from)
  have i_eq: "inspected es = heights_from H (length (inspected es))"
    using ins by (rule consecutive_heights_from)
  have "take (length (inspected es)) (awaited es) =
      take (length (inspected es)) (heights_from H (length (awaited es)))"
    using a_eq by simp
  also have "\<dots> = heights_from H (length (inspected es))"
    using le by (rule heights_from_take)
  finally have pre: "inspected es = take (length (inspected es)) (awaited es)"
    using i_eq by simp
  have inc: "sorted_wrt (<) (awaited es) \<and> distinct (awaited es) \<and> (\<forall>h \<in> set (awaited es). H < h)"
    if "unat H + length (awaited es) < 2 ^ 64"
  proof -
    from aw that have s: "sorted_wrt (<) (awaited es) \<and> (\<forall>h \<in> set (awaited es). H < h)"
      by (rule consecutive_increasing)
    then have "distinct (awaited es)"
      by (simp add: strict_sorted_iff)
    with s show ?thesis by simp
  qed
  from a_eq pre inc show ?thesis
    unfolding a i by blast
qed

theorem waitForTxInBlock_heights_witness:
  "heights_awaited sample_chain (Ctx 0) (Some sample_tx) 5
       [block_landed [], block_landed [''ab01''], ctx_Done (Ext ''context canceled'')] fresh_world
     = [6, 7, 8]
   \<and> heights_inspected sample_chain (Ctx 0) (Some sample_tx) 5
       [block_landed [], block_landed [''ab01''], ctx_Done (Ext ''context canceled'')] fresh_world
     = [6, 7]
   \<and> unat (5 :: 64 word) + length [6, 7, 8 :: 64 word] < 2 ^ 64
   \<and> sorted_wrt (<) [6, 7, 8 :: 64 word] \<and> distinct [6, 7, 8 :: 64 word]
   \<and> (5 :: 64 word) < 6 \<and> (5 :: 64 word) < 7 \<and> (5 :: 64 word) < 8"
proof -
  let ?wakes = "[block_landed [], block_landed [''ab01''], ctx_Done (Ext ''context canceled'')]"
  have a: "heights_awaited sample_chain (Ctx 0) (Some sample_tx) 5 ?wakes fresh_world = [6, 7, 8]"
    unfolding heights_awaited_def sample_wait by (simp add: fresh_world_def)
  have i: "heights_inspected sample_chain (Ctx 0) (Some sample_tx) 5 ?wakes fresh_world = [6, 7]"
    unfolding heights_inspected_def sample_wait by (simp add: fresh_world_def)
  have b: "unat (5 :: 64 word) + length [6, 7, 8 :: 64 word] < 2 ^ 64"
    by simp
  from waitForTxInBlock_heights [of sample_chain "Ctx 0" "Some sample_tx" 5 ?wakes fresh_world]
  have "unat (5 :: 64 word) + length [6, 7, 8 :: 64 word] < 2 ^ 64 \<longrightarrow>
      sorted_wrt (<) [6, 7, 8 :: 64 word] \<and> distinct [6, 7, 8 :: 64 word]
      \<and> (\<forall>h \<in> set [6, 7, 8 :: 64 word]. 5 < h)"
    unfolding a by blast
  with b have "sorted_wrt (<) [6, 7, 8 :: 64 word] \<and> distinct [6, 7, 8 :: 64 word]
      \<and> (5 :: 64 word) < 6 \<and> (5 :: 64 word) < 7 \<and> (5 :: 64 word) < 8"
    by simp
  with a i b show ?thesis by blast
qed

text \<open>
  The claim as first stated fails at the largest uint64: \<open>height++\<close> wraps around, and
  from \<open>H = 2^64 - 1\<close> the waiter awaits and fetches the block at height 0, which is not
  above \<open>H\<close>.
\<close>

theorem waitForTxInBlock_heights_counterexample:
  "heights_awaited sample_chain (Ctx 0) (Some sample_tx) 18446744073709551615
       [block_landed [], ctx_Done (Ext ''context canceled'')] fresh_world = [0, 1]
   \<and> heights_inspected sample_chain (Ctx 0) (Some sample_tx) 18446744073709551615
       [block_landed [], ctx_Done (Ext ''context canceled'')] fresh_world = [0]
   \<and> (0 :: 64 word) \<le> 18446744073709551615"
  by (simp add: heights_awaited_def heights_inspected_def sample_chain_def sample_tx_def
      fresh_world_def call_FinalizeTx_def)

end
